theory Spec2Isabelle
  imports
    Complex_Main
    "HOL-Library.Char_ord"
    "HOL-Library.List_Lexorder"
    "HOL-Library.Option_ord"
    "HOL-Library.Multiset"
begin

section \<open>Data model\<close>

text \<open>
  A data frame is a list of rows. A cell that pandas holds as NaN or NaT is \<open>None\<close>.
  The first record type is a row of \<^verbatim>\<open>travel.csv\<close>; its three date columns hold
  strings as \<^verbatim>\<open>read_csv\<close> delivers them and points in time after
  \<^verbatim>\<open>to_datetime\<close>, so the record is polymorphic in the type of a date cell.
  Columns of the file that no modelled function reads are left out.
\<close>

type_synonym timestamp = int
  \<comment> \<open>nanoseconds since the epoch, as in \<^verbatim>\<open>datetime64[ns]\<close>\<close>

record 'd csv_row =
  date_time :: "'d option"
  srch_ci :: "'d option"
  srch_co :: "'d option"
  is_mobile :: "int option"
  is_package :: "int option"
  is_booking :: "int option"
  srch_adults_cnt :: "int option"
  srch_children_cnt :: "int option"
  orig_destination_distance :: "real option"
  user_location_country :: "int option"
  hotel_market :: "int option"

record row = "timestamp csv_row" +
  year_month :: "string option"
  trip_duration :: "int option"
  booking_window :: "int option"
  travel_group :: string
  duration_category :: "string option"
  window_category :: "string option"
  device_package :: "string option"
  distance_category :: "string option"

datatype load_error = DateParseError string

section \<open>Column operations of pandas and numpy, one row at a time\<close>

text \<open>
  \<^verbatim>\<open>pd.to_datetime\<close> with the default \<^verbatim>\<open>errors='raise'\<close>: an empty cell becomes NaT,
  a string that is not a point in time raises. The parser of the library is the
  parameter \<open>parse\<close>.
\<close>

definition to_datetime :: "(string \<Rightarrow> timestamp option) \<Rightarrow> string option \<Rightarrow> load_error + timestamp option" where
  "to_datetime parse c =
     (case c of
        None \<Rightarrow> Inr None
      | Some s \<Rightarrow> (case parse s of None \<Rightarrow> Inl (DateParseError s) | Some t \<Rightarrow> Inr (Some t)))"

fun to_datetime_column :: "(string \<Rightarrow> timestamp option) \<Rightarrow> string option list \<Rightarrow> load_error + timestamp option list" where
  "to_datetime_column parse [] = Inr []"
| "to_datetime_column parse (c # cs) =
     (case to_datetime parse c of
        Inl e \<Rightarrow> Inl e
      | Inr t \<Rightarrow> (case to_datetime_column parse cs of Inl e \<Rightarrow> Inl e | Inr ts \<Rightarrow> Inr (t # ts)))"

text \<open>\<^verbatim>\<open>pd.to_datetime(..., errors='coerce')\<close>: what does not parse becomes NaT.\<close>

definition to_datetime_coerce :: "(string \<Rightarrow> timestamp option) \<Rightarrow> string option \<Rightarrow> timestamp option" where
  "to_datetime_coerce parse c = (case c of None \<Rightarrow> None | Some s \<Rightarrow> parse s)"

definition ns_per_day :: int where
  "ns_per_day = 86400000000000"

text \<open>Difference of two date cells (NaT propagates) and \<^verbatim>\<open>.dt.days\<close>, which rounds down.\<close>

definition sub_dt :: "timestamp option \<Rightarrow> timestamp option \<Rightarrow> int option" where
  "sub_dt a b = (case a of None \<Rightarrow> None | Some x \<Rightarrow> (case b of None \<Rightarrow> None | Some y \<Rightarrow> Some (x - y)))"

definition dt_days :: "int option \<Rightarrow> int option" where
  "dt_days d = map_option (\<lambda>x. x div ns_per_day) d"

text \<open>A comparison of a cell with a constant is false on NaN.\<close>

definition cmp :: "('a \<Rightarrow> 'a \<Rightarrow> bool) \<Rightarrow> 'a option \<Rightarrow> 'a \<Rightarrow> bool" where
  "cmp rel c k = (case c of None \<Rightarrow> False | Some v \<Rightarrow> rel v k)"

text \<open>\<^verbatim>\<open>np.select(condlist, choicelist, default)\<close> at one row: the first true condition wins.\<close>

fun np_select :: "bool list \<Rightarrow> 'a list \<Rightarrow> 'a \<Rightarrow> 'a" where
  "np_select (c # cs) (v # vs) d = (if c then v else np_select cs vs d)"
| "np_select _ _ d = d"

text \<open>\<^verbatim>\<open>Series.map(dict)\<close>: a value that is no key of the dictionary becomes NaN.\<close>

definition map_dict :: "(int \<times> string) list \<Rightarrow> int option \<Rightarrow> string option" where
  "map_dict d c = (case c of None \<Rightarrow> None | Some v \<Rightarrow> map_of d v)"

text \<open>Concatenation of string cells: NaN on either side gives NaN.\<close>

definition str_add :: "string option \<Rightarrow> string option \<Rightarrow> string option" where
  "str_add a b = (case a of None \<Rightarrow> None | Some x \<Rightarrow> (case b of None \<Rightarrow> None | Some y \<Rightarrow> Some (x @ y)))"

section \<open>\<^verbatim>\<open>data_loader.load_data\<close>\<close>

definition travel_group_of :: "int option \<Rightarrow> int option \<Rightarrow> string" where
  "travel_group_of adults children =
     np_select
       [cmp (=) adults 1 \<and> cmp (=) children 0,
        cmp (=) adults 2 \<and> cmp (=) children 0,
        cmp (=) adults 1 \<and> cmp (>) children 0,
        cmp (=) adults 2 \<and> cmp (>) children 0,
        cmp (>) adults 2]
       [''Solo'', ''Couple'', ''Single Parent'', ''Family'', ''Group'']
       ''Other''"

text \<open>
  In the three ladders the choices of \<^verbatim>\<open>np.select\<close> are strings and the default is
  \<^verbatim>\<open>np.nan\<close>. The result of \<^verbatim>\<open>np.select\<close> is one array of one type, here a string
  array, and numpy 1.x stores the default in it as the string \<^verbatim>\<open>'nan'\<close>: the category of
  a row on which no condition holds is that string, a defined cell. (numpy 2 refuses
  the same call with a \<^verbatim>\<open>TypeError\<close>, for want of a common type.)
\<close>

definition nan_as_str :: string where
  "nan_as_str = ''nan''"

definition duration_category_of :: "int option \<Rightarrow> string option" where
  "duration_category_of td =
     np_select
       [cmp (\<le>) td 3, cmp (\<le>) td 7, cmp (\<le>) td 14, cmp (>) td 14]
       [Some ''1-3 days'', Some ''4-7 days'', Some ''8-14 days'', Some ''15+ days'']
       (Some nan_as_str)"

definition window_category_of :: "int option \<Rightarrow> string option" where
  "window_category_of bw =
     np_select
       [cmp (<) bw 7, cmp (<) bw 14, cmp (<) bw 30, cmp (<) bw 60, cmp (<) bw 90, cmp (\<ge>) bw 90]
       [Some ''0-6 days'', Some ''7-13 days'', Some ''14-29 days'', Some ''30-59 days'',
        Some ''60-89 days'', Some ''90+ days'']
       (Some nan_as_str)"

definition device_package_of :: "int option \<Rightarrow> int option \<Rightarrow> string option" where
  "device_package_of mobile package =
     str_add (str_add (map_dict [(1, ''Mobile''), (0, ''Desktop'')] mobile) (Some '', ''))
       (map_dict [(1, ''Package''), (0, ''Non-Package'')] package)"

definition distance_category_of :: "real option \<Rightarrow> string option" where
  "distance_category_of km =
     np_select
       [cmp (<) km 100, cmp (<) km 500, cmp (<) km 1000, cmp (<) km 2000, cmp (\<ge>) km 2000]
       [Some ''< 100'', Some ''100-500'', Some ''500-1000'', Some ''1000-2000'', Some ''> 2000'']
       (Some nan_as_str)"

text \<open>
  Lines 14 to 16: the three date columns. Only \<^verbatim>\<open>srch_ci\<close> and \<^verbatim>\<open>srch_co\<close> are
  converted with \<^verbatim>\<open>errors='coerce'\<close>; \<open>t\<close> is the converted \<^verbatim>\<open>date_time\<close> cell.
\<close>

definition set_dates :: "(string \<Rightarrow> timestamp option) \<Rightarrow> timestamp option \<Rightarrow> string csv_row \<Rightarrow> timestamp csv_row" where
  "set_dates parse t r =
     \<lparr>date_time = t,
      srch_ci = to_datetime_coerce parse (srch_ci r),
      srch_co = to_datetime_coerce parse (srch_co r),
      is_mobile = is_mobile r,
      is_package = is_package r,
      is_booking = is_booking r,
      srch_adults_cnt = srch_adults_cnt r,
      srch_children_cnt = srch_children_cnt r,
      orig_destination_distance = orig_destination_distance r,
      user_location_country = user_location_country r,
      hotel_market = hotel_market r\<rparr>"

text \<open>
  Lines 19 to 73: the derived columns. \<open>strftime\<close> stands for the library's
  \<^verbatim>\<open>.dt.strftime('%Y-%m')\<close>.
\<close>

definition derive :: "(timestamp \<Rightarrow> string) \<Rightarrow> timestamp csv_row \<Rightarrow> row" where
  "derive strftime r =
     (let td = dt_days (sub_dt (srch_co r) (srch_ci r));
          bw = dt_days (sub_dt (srch_ci r) (date_time r))
      in csv_row.extend r
           (row.fields
              (map_option strftime (date_time r))
              td
              bw
              (travel_group_of (srch_adults_cnt r) (srch_children_cnt r))
              (duration_category_of td)
              (window_category_of bw)
              (device_package_of (is_mobile r) (is_package r))
              (distance_category_of (orig_destination_distance r))))"

definition load_data :: "(string \<Rightarrow> timestamp option) \<Rightarrow> (timestamp \<Rightarrow> string) \<Rightarrow> string csv_row list \<Rightarrow> load_error + row list" where
  "load_data parse strftime csv =
     (case to_datetime_column parse (map date_time csv) of
        Inl e \<Rightarrow> Inl e
      | Inr ts \<Rightarrow> Inr (map (derive strftime) (map2 (set_dates parse) ts csv)))"

section \<open>\<^verbatim>\<open>utils.calculate_conversion_rate\<close>\<close>

record 'k summary_row =
  group_value :: 'k
  searches :: int
  bookings :: int
  conversion_rate :: "real option"

text \<open>The aggregations \<^verbatim>\<open>'count'\<close> (the cells that are not NaN) and \<^verbatim>\<open>'sum'\<close> (NaN skipped).\<close>

definition agg_count :: "'a option list \<Rightarrow> int" where
  "agg_count xs = int (length (filter (\<lambda>x. x \<noteq> None) xs))"

definition agg_sum :: "int option list \<Rightarrow> int" where
  "agg_sum xs = (\<Sum>x\<leftarrow>xs. case x of None \<Rightarrow> 0 | Some v \<Rightarrow> v)"

text \<open>
  \<^verbatim>\<open>df.groupby(col)\<close> with its defaults \<^verbatim>\<open>sort=True\<close> and \<^verbatim>\<open>dropna=True\<close>: the group
  keys are the distinct values of the column that are not NaN, in ascending order; the
  group of a key holds the rows with that value, in the order of the frame.
\<close>

definition group_keys :: "('r \<Rightarrow> 'k::linorder option) \<Rightarrow> 'r list \<Rightarrow> 'k list" where
  "group_keys col df = sort (remdups (List.map_filter col df))"

definition group_rows :: "('r \<Rightarrow> 'k option) \<Rightarrow> 'r list \<Rightarrow> 'k \<Rightarrow> 'r list" where
  "group_rows col df k = filter (\<lambda>r. col r = Some k) df"

text \<open>
  The column \<open>group_by_col\<close> is given by its accessor. The rate is
  \<^verbatim>\<open>(bookings / searches) * 100\<close> in exact arithmetic; a group whose \<^verbatim>\<open>is_booking\<close>
  cells are all NaN has count 0 and sum 0, and pandas gives NaN for 0 / 0.
\<close>

definition calculate_conversion_rate ::
    "('d, 'z) csv_row_scheme list \<Rightarrow> (('d, 'z) csv_row_scheme \<Rightarrow> 'k::linorder option) \<Rightarrow> 'k summary_row list" where
  "calculate_conversion_rate df group_by_col =
     map (\<lambda>k.
            let grp = group_rows group_by_col df k;
                s = agg_count (map is_booking grp);
                b = agg_sum (map is_booking grp)
            in \<lparr>group_value = k, searches = s, bookings = b,
                conversion_rate = (if s = 0 then None else Some (real_of_int b / real_of_int s * 100))\<rparr>)
         (group_keys group_by_col df)"

section \<open>The top-N views\<close>

text \<open>
  \<^verbatim>\<open>sort_values(col, ascending=False)\<close>: descending, NaN last (\<open>None\<close> is the least
  element of the order on cells). Rows with equal keys keep the order of the frame here;
  the library does not fix their order, and no statement below depends on it.
\<close>

definition sort_values_desc :: "('a \<Rightarrow> 'b::linorder) \<Rightarrow> 'a list \<Rightarrow> 'a list" where
  "sort_values_desc col xs = rev (sort_key col (rev xs))"

text \<open>
  The expression
  \<^verbatim>\<open>data[data['searches'] >= 100].sort_values('conversion_rate', ascending=False).head(n)\<close>
  of \<^verbatim>\<open>trip_characteristics.py\<close> line 103 and \<^verbatim>\<open>advanced_visualizations.py\<close>
  lines 171 and 398.
\<close>

definition top_by_conversion_rate :: "nat \<Rightarrow> 'k summary_row list \<Rightarrow> 'k summary_row list" where
  "top_by_conversion_rate n data =
     take n (sort_values_desc conversion_rate (filter (\<lambda>g. searches g \<ge> 100) data))"

text \<open>
  \<^verbatim>\<open>top_markets\<close>: the frame \<^verbatim>\<open>market_data\<close> is built in place by the same
  \<^verbatim>\<open>groupby\<close>, \<^verbatim>\<open>agg\<close> and rate as in \<^verbatim>\<open>calculate_conversion_rate\<close>.
\<close>

definition top_markets :: "row list \<Rightarrow> int summary_row list" where
  "top_markets df = top_by_conversion_rate 10 (calculate_conversion_rate df hotel_market)"

definition top_countries :: "row list \<Rightarrow> int summary_row list" where
  "top_countries df = top_by_conversion_rate 10 (calculate_conversion_rate df user_location_country)"

text \<open>
  The segment columns of \<^verbatim>\<open>show_customer_segmentation\<close>, as functions of the row. The
  trip type has the default \<^verbatim>\<open>np.nan\<close> among string choices, so a row without a trip
  duration has the trip type \<^verbatim>\<open>'nan'\<close> and a segment that ends in it, which
  \<^verbatim>\<open>dropna(subset=['full_segment'])\<close> keeps.
\<close>

definition segment_device_package :: "int option \<Rightarrow> int option \<Rightarrow> string" where
  "segment_device_package mobile package =
     np_select
       [cmp (=) mobile 1 \<and> cmp (=) package 1,
        cmp (=) mobile 1 \<and> cmp (=) package 0,
        cmp (=) mobile 0 \<and> cmp (=) package 1,
        cmp (=) mobile 0 \<and> cmp (=) package 0]
       [''Mobile Package'', ''Mobile Non-Package'', ''Desktop Package'', ''Desktop Non-Package'']
       ''Other''"

definition travel_party :: "int option \<Rightarrow> int option \<Rightarrow> string" where
  "travel_party adults children =
     np_select
       [cmp (=) adults 1 \<and> cmp (=) children 0,
        cmp (=) adults 2 \<and> cmp (=) children 0,
        cmp (=) adults 1 \<and> cmp (>) children 0,
        cmp (=) adults 2 \<and> cmp (>) children 0,
        cmp (>) adults 2]
       [''Solo Traveler'', ''Couple'', ''Single Parent'', ''Family'', ''Group'']
       ''Other''"

definition trip_type :: "int option \<Rightarrow> string option" where
  "trip_type td =
     np_select
       [cmp (\<le>) td 3, cmp (\<le>) td 7, cmp (>) td 7]
       [Some ''Short Break'', Some ''Standard Vacation'', Some ''Extended Trip'']
       (Some nan_as_str)"

definition full_segment :: "row \<Rightarrow> string option" where
  "full_segment r =
     str_add
       (str_add
          (str_add
             (str_add (Some (segment_device_package (is_mobile r) (is_package r))) (Some '' - ''))
             (Some (travel_party (srch_adults_cnt r) (srch_children_cnt r))))
          (Some '' - ''))
       (trip_type (trip_duration r))"

definition top_segments :: "row list \<Rightarrow> string summary_row list" where
  "top_segments df =
     top_by_conversion_rate 15
       (calculate_conversion_rate (filter (\<lambda>r. full_segment r \<noteq> None) df) full_segment)"

section \<open>Sample data\<close>

text \<open>
  A parser that knows six date strings and a formatter for the month they lie in, to
  run the functions on concrete frames.
\<close>

definition sample_parse :: "string \<Rightarrow> timestamp option" where
  "sample_parse =
     map_of
       [(''2014-08-11 07:46:59'', 1407743219000000000),
        (''2014-08-11 08:22:12'', 1407745332000000000),
        (''2014-08-11'', 1407715200000000000),
        (''2014-08-27'', 1409097600000000000),
        (''2014-08-31'', 1409443200000000000),
        (''2014-09-20'', 1411171200000000000)]"

definition sample_strftime :: "timestamp \<Rightarrow> string" where
  "sample_strftime t = (if t < 1409529600000000000 then ''2014-08'' else ''2014-09'')"

definition csv_cell ::
    "string option \<Rightarrow> string option \<Rightarrow> string option \<Rightarrow> int \<Rightarrow> int \<Rightarrow> int \<Rightarrow> int \<Rightarrow> int
       \<Rightarrow> real option \<Rightarrow> int \<Rightarrow> int \<Rightarrow> string csv_row" where
  "csv_cell dt ci co mobile package booking adults children km country market =
     \<lparr>date_time = dt, srch_ci = ci, srch_co = co,
      is_mobile = Some mobile, is_package = Some package, is_booking = Some booking,
      srch_adults_cnt = Some adults, srch_children_cnt = Some children,
      orig_destination_distance = km,
      user_location_country = Some country, hotel_market = Some market\<rparr>"

definition sample_csv :: "string csv_row list" where
  "sample_csv =
     [csv_cell (Some ''2014-08-11 07:46:59'') (Some ''2014-08-27'') (Some ''2014-08-31'')
        0 1 0 2 0 (Some 2234) 66 628,
      csv_cell (Some ''2014-08-11 08:22:12'') (Some ''2014-08-11'') (Some ''2014-08-11'')
        1 0 1 1 2 None 66 628,
      csv_cell (Some ''2014-08-11 07:46:59'') (Some ''soon'') (Some ''2014-08-31'')
        1 1 1 0 0 (Some 50) 3 675,
      csv_cell (Some ''2014-08-11 08:22:12'') (Some ''2014-08-27'') (Some ''2014-09-20'')
        0 1 1 2 0 (Some 120) 66 628]"

definition bad_csv :: "string csv_row list" where
  "bad_csv =
     [csv_cell (Some ''2014-08-11 07:46:59'') (Some ''2014-08-27'') (Some ''2014-08-31'')
        0 1 0 2 0 (Some 2234) 66 628,
      csv_cell (Some ''yesterday'') (Some ''2014-08-27'') (Some ''2014-08-31'')
        1 0 1 1 2 None 66 628]"

definition sample_df :: "row list" where
  "sample_df = map (derive sample_strftime) (map2 (set_dates sample_parse)
     [Some 1407743219000000000, Some 1407745332000000000, Some 1407743219000000000,
      Some 1407745332000000000] sample_csv)"

text \<open>
  A larger frame for the top-N views: twelve markets of 100 rows each, market \<open>m\<close> with
  \<open>m\<close> bookings, and market 99 with 50 rows, all booked. The rows of market 12 have no
  trip duration.
\<close>

definition market_rows :: "nat \<Rightarrow> nat \<Rightarrow> row \<Rightarrow> int \<Rightarrow> row list" where
  "market_rows booked missed r m =
     replicate booked (r\<lparr>hotel_market := Some m, user_location_country := Some m, is_booking := Some 1\<rparr>)
     @ replicate missed (r\<lparr>hotel_market := Some m, user_location_country := Some m, is_booking := Some 0\<rparr>)"

definition big_df :: "row list" where
  "big_df =
     market_rows 1 99 (sample_df ! 0) 1 @ market_rows 2 98 (sample_df ! 0) 2
     @ market_rows 3 97 (sample_df ! 0) 3 @ market_rows 4 96 (sample_df ! 0) 4
     @ market_rows 5 95 (sample_df ! 0) 5 @ market_rows 6 94 (sample_df ! 0) 6
     @ market_rows 7 93 (sample_df ! 0) 7 @ market_rows 8 92 (sample_df ! 0) 8
     @ market_rows 9 91 (sample_df ! 0) 9 @ market_rows 10 90 (sample_df ! 0) 10
     @ market_rows 11 89 (sample_df ! 0) 11 @ market_rows 12 88 (sample_df ! 2) 12
     @ market_rows 50 0 (sample_df ! 0) 99"

section \<open>Properties of the loader\<close>

lemma to_datetime_column_length:
  "to_datetime_column parse cs = Inr ts \<Longrightarrow> length ts = length cs"
  by (induction cs arbitrary: ts) (auto split: sum.splits)

lemma derive_fields:
  "travel_group (derive strftime c) = travel_group_of (srch_adults_cnt c) (srch_children_cnt c)"
  "trip_duration (derive strftime c) = dt_days (sub_dt (srch_co c) (srch_ci c))"
  "booking_window (derive strftime c) = dt_days (sub_dt (srch_ci c) (date_time c))"
  "duration_category (derive strftime c) = duration_category_of (dt_days (sub_dt (srch_co c) (srch_ci c)))"
  "window_category (derive strftime c) = window_category_of (dt_days (sub_dt (srch_ci c) (date_time c)))"
  "device_package (derive strftime c) = device_package_of (is_mobile c) (is_package c)"
  "distance_category (derive strftime c) = distance_category_of (orig_destination_distance c)"
  "year_month (derive strftime c) = map_option strftime (date_time c)"
  by (simp_all add: derive_def Let_def csv_row.defs row.defs)

lemma derive_keeps:
  "date_time (derive strftime c) = date_time c"
  "srch_ci (derive strftime c) = srch_ci c"
  "srch_co (derive strftime c) = srch_co c"
  "is_mobile (derive strftime c) = is_mobile c"
  "is_package (derive strftime c) = is_package c"
  "is_booking (derive strftime c) = is_booking c"
  "srch_adults_cnt (derive strftime c) = srch_adults_cnt c"
  "srch_children_cnt (derive strftime c) = srch_children_cnt c"
  "orig_destination_distance (derive strftime c) = orig_destination_distance c"
  "user_location_country (derive strftime c) = user_location_country c"
  "hotel_market (derive strftime c) = hotel_market c"
  by (simp_all add: derive_def Let_def csv_row.defs row.defs)

lemma load_data_row:
  assumes "load_data parse strftime csv = Inr df" and "r \<in> set df"
  shows "\<exists>c. r = derive strftime c"
  using assms by (auto simp: load_data_def split: sum.splits)

text \<open>Every row of a loaded frame carries the derived columns of its own cells.\<close>

lemma row_categories:
  assumes "load_data parse strftime csv = Inr df" and "r \<in> set df"
  shows "travel_group r = travel_group_of (srch_adults_cnt r) (srch_children_cnt r)"
    and "duration_category r = duration_category_of (trip_duration r)"
    and "window_category r = window_category_of (booking_window r)"
    and "device_package r = device_package_of (is_mobile r) (is_package r)"
    and "distance_category r = distance_category_of (orig_destination_distance r)"
    and "trip_duration r = dt_days (sub_dt (srch_co r) (srch_ci r))"
    and "booking_window r = dt_days (sub_dt (srch_ci r) (date_time r))"
    and "year_month r = map_option strftime (date_time r)"
  using load_data_row [OF assms] by (auto simp: derive_fields derive_keeps)

lemma sample_load: "load_data sample_parse sample_strftime sample_csv = Inr sample_df"
  by (simp add: load_data_def sample_csv_def sample_df_def to_datetime_def sample_parse_def csv_cell_def)

lemma sample_df_nth:
  "sample_df ! 0 \<in> set sample_df" "sample_df ! 1 \<in> set sample_df" "sample_df ! 2 \<in> set sample_df"
  "sample_df ! 3 \<in> set sample_df"
  by (simp_all add: sample_df_def sample_csv_def)

lemma travel_group_of_Some:
  "travel_group_of (Some a) (Some c) =
     (if a = 1 \<and> c = 0 then ''Solo'' else if a = 2 \<and> c = 0 then ''Couple''
      else if a = 1 \<and> c > 0 then ''Single Parent'' else if a = 2 \<and> c > 0 then ''Family''
      else if a > 2 then ''Group'' else ''Other'')"
  by (simp add: travel_group_of_def cmp_def)

text \<open>
  Claim C3. In a loaded frame, a row with adult count \<open>a\<close> and child count \<open>c\<close> has the
  label Solo exactly when \<open>a = 1\<close> and \<open>c = 0\<close>, Couple exactly when \<open>a = 2\<close> and
  \<open>c = 0\<close>, Single Parent exactly when \<open>a = 1\<close> and \<open>c > 0\<close>, Family exactly when
  \<open>a = 2\<close> and \<open>c > 0\<close>, Group exactly when \<open>a > 2\<close>, and Other exactly when none of
  the five rules applies, which for non-negative counts means \<open>a = 0\<close>. The six labels
  differ, so every row has exactly one of them and exactly one rule applies to it.
\<close>

theorem travel_group_rules:
  assumes "load_data parse strftime csv = Inr df" and "r \<in> set df"
    and "srch_adults_cnt r = Some a" and "srch_children_cnt r = Some c"
  shows "(travel_group r = ''Solo'' \<longleftrightarrow> a = 1 \<and> c = 0)
       \<and> (travel_group r = ''Couple'' \<longleftrightarrow> a = 2 \<and> c = 0)
       \<and> (travel_group r = ''Single Parent'' \<longleftrightarrow> a = 1 \<and> c > 0)
       \<and> (travel_group r = ''Family'' \<longleftrightarrow> a = 2 \<and> c > 0)
       \<and> (travel_group r = ''Group'' \<longleftrightarrow> a > 2)
       \<and> (travel_group r = ''Other'' \<longleftrightarrow>
            \<not> (a = 1 \<and> c = 0) \<and> \<not> (a = 2 \<and> c = 0) \<and> \<not> (a = 1 \<and> c > 0) \<and> \<not> (a = 2 \<and> c > 0) \<and> \<not> a > 2)
       \<and> (0 \<le> a \<and> 0 \<le> c \<longrightarrow> (travel_group r = ''Other'' \<longleftrightarrow> a = 0))
       \<and> travel_group r \<in> {''Solo'', ''Couple'', ''Single Parent'', ''Family'', ''Group'', ''Other''}"
  unfolding row_categories(1) [OF assms(1,2)] assms(3,4) travel_group_of_Some
  by auto

theorem travel_group_rules_witness:
  "load_data sample_parse sample_strftime sample_csv = Inr sample_df
   \<and> sample_df ! 1 \<in> set sample_df
   \<and> srch_adults_cnt (sample_df ! 1) = Some 1 \<and> srch_children_cnt (sample_df ! 1) = Some 2
   \<and> travel_group (sample_df ! 1) = ''Single Parent''
   \<and> travel_group (sample_df ! 1) \<noteq> ''Other''"
proof -
  have a: "srch_adults_cnt (sample_df ! 1) = Some 1"
    by (simp add: sample_df_def sample_csv_def derive_keeps set_dates_def csv_cell_def)
  have c: "srch_children_cnt (sample_df ! 1) = Some 2"
    by (simp add: sample_df_def sample_csv_def derive_keeps set_dates_def csv_cell_def)
  show ?thesis
    using travel_group_rules [OF sample_load sample_df_nth(2) a c] sample_load sample_df_nth(2) a c
    by simp
qed

lemma duration_category_of_simps:
  "duration_category_of None = Some ''nan''"
  "duration_category_of (Some d) =
     Some (if d \<le> 3 then ''1-3 days'' else if d \<le> 7 then ''4-7 days''
           else if d \<le> 14 then ''8-14 days'' else ''15+ days'')"
  by (auto simp: duration_category_of_def nan_as_str_def cmp_def)

lemma window_category_of_simps:
  "window_category_of None = Some ''nan''"
  "window_category_of (Some d) =
     Some (if d < 7 then ''0-6 days'' else if d < 14 then ''7-13 days''
           else if d < 30 then ''14-29 days'' else if d < 60 then ''30-59 days''
           else if d < 90 then ''60-89 days'' else ''90+ days'')"
  by (auto simp: window_category_of_def nan_as_str_def cmp_def)

text \<open>
  On defined values the two ladders give the buckets by their ranges: "1-3 days" for a
  duration of at most 3, "4-7 days" from 4 to 7, "8-14 days" from 8 to 14 and "15+ days"
  from 15 on; "0-6 days" for a window below 7, "7-13 days" from 7 to 13, "14-29 days"
  from 14 to 29, "30-59 days" from 30 to 59, "60-89 days" from 60 to 89 and "90+ days"
  from 90 on.
\<close>

lemma category_ladders_defined:
  assumes "load_data parse strftime csv = Inr df" and "r \<in> set df"
  shows "(\<forall>d. trip_duration r = Some d \<longrightarrow>
            (d \<le> 3 \<longrightarrow> duration_category r = Some ''1-3 days'')
          \<and> (4 \<le> d \<and> d \<le> 7 \<longrightarrow> duration_category r = Some ''4-7 days'')
          \<and> (8 \<le> d \<and> d \<le> 14 \<longrightarrow> duration_category r = Some ''8-14 days'')
          \<and> (15 \<le> d \<longrightarrow> duration_category r = Some ''15+ days''))
       \<and> (\<forall>w. booking_window r = Some w \<longrightarrow>
            (w < 7 \<longrightarrow> window_category r = Some ''0-6 days'')
          \<and> (7 \<le> w \<and> w \<le> 13 \<longrightarrow> window_category r = Some ''7-13 days'')
          \<and> (14 \<le> w \<and> w \<le> 29 \<longrightarrow> window_category r = Some ''14-29 days'')
          \<and> (30 \<le> w \<and> w \<le> 59 \<longrightarrow> window_category r = Some ''30-59 days'')
          \<and> (60 \<le> w \<and> w \<le> 89 \<longrightarrow> window_category r = Some ''60-89 days'')
          \<and> (90 \<le> w \<longrightarrow> window_category r = Some ''90+ days''))"
proof -
  have d: "duration_category r = duration_category_of (trip_duration r)"
    and w: "window_category r = window_category_of (booking_window r)"
    using row_categories(2,3) [OF assms] by simp_all
  have "\<forall>x. trip_duration r = Some x \<longrightarrow>
            (x \<le> 3 \<longrightarrow> duration_category r = Some ''1-3 days'')
          \<and> (4 \<le> x \<and> x \<le> 7 \<longrightarrow> duration_category r = Some ''4-7 days'')
          \<and> (8 \<le> x \<and> x \<le> 14 \<longrightarrow> duration_category r = Some ''8-14 days'')
          \<and> (15 \<le> x \<longrightarrow> duration_category r = Some ''15+ days'')"
    unfolding d by (simp add: duration_category_of_simps)
  moreover have "\<forall>x. booking_window r = Some x \<longrightarrow>
            (x < 7 \<longrightarrow> window_category r = Some ''0-6 days'')
          \<and> (7 \<le> x \<and> x \<le> 13 \<longrightarrow> window_category r = Some ''7-13 days'')
          \<and> (14 \<le> x \<and> x \<le> 29 \<longrightarrow> window_category r = Some ''14-29 days'')
          \<and> (30 \<le> x \<and> x \<le> 59 \<longrightarrow> window_category r = Some ''30-59 days'')
          \<and> (60 \<le> x \<and> x \<le> 89 \<longrightarrow> window_category r = Some ''60-89 days'')
          \<and> (90 \<le> x \<longrightarrow> window_category r = Some ''90+ days'')"
    unfolding w by (simp add: window_category_of_simps)
  ultimately show ?thesis by blast
qed

text \<open>
  The categories of a loaded row are always defined: where the number is undefined, the
  category is the string \<^verbatim>\<open>'nan'\<close>.
\<close>

lemma category_of_undefined:
  assumes "load_data parse strftime csv = Inr df" and "r \<in> set df"
  shows "duration_category r \<noteq> None"
    and "window_category r \<noteq> None"
    and "trip_duration r = None \<Longrightarrow> duration_category r = Some ''nan''"
    and "booking_window r = None \<Longrightarrow> window_category r = Some ''nan''"
proof -
  have d: "duration_category r = duration_category_of (trip_duration r)"
    and w: "window_category r = window_category_of (booking_window r)"
    using row_categories(2,3) [OF assms] by simp_all
  show "duration_category r \<noteq> None"
    unfolding d by (cases "trip_duration r") (simp_all add: duration_category_of_simps)
  show "window_category r \<noteq> None"
    unfolding w by (cases "booking_window r") (simp_all add: window_category_of_simps)
  show "trip_duration r = None \<Longrightarrow> duration_category r = Some ''nan''"
    unfolding d by (simp add: duration_category_of_simps)
  show "booking_window r = None \<Longrightarrow> window_category r = Some ''nan''"
    unfolding w by (simp add: window_category_of_simps)
qed

lemma sample_df_0:
  "trip_duration (sample_df ! 0) = Some 4" "booking_window (sample_df ! 0) = Some 15"
  "duration_category (sample_df ! 0) = Some ''4-7 days''"
  "window_category (sample_df ! 0) = Some ''14-29 days''"
  by (simp_all add: sample_df_def sample_csv_def derive_fields set_dates_def csv_cell_def
      to_datetime_coerce_def sample_parse_def sub_dt_def dt_days_def ns_per_day_def
      duration_category_of_simps window_category_of_simps)

lemma sample_df_1:
  "trip_duration (sample_df ! 1) = Some 0" "booking_window (sample_df ! 1) = Some (- 1)"
  "date_time (sample_df ! 1) = Some 1407745332000000000"
  "srch_ci (sample_df ! 1) = Some 1407715200000000000"
  "srch_co (sample_df ! 1) = Some 1407715200000000000"
  "is_mobile (sample_df ! 1) = Some 1" "is_package (sample_df ! 1) = Some 0"
  "orig_destination_distance (sample_df ! 1) = None"
  by (simp_all add: sample_df_def sample_csv_def derive_fields derive_keeps set_dates_def csv_cell_def
      to_datetime_coerce_def sample_parse_def sub_dt_def dt_days_def ns_per_day_def)

lemma sample_df_2:
  "trip_duration (sample_df ! 2) = None" "booking_window (sample_df ! 2) = None"
  "srch_ci (sample_df ! 2) = None"
  "is_mobile (sample_df ! 2) = Some 1" "is_package (sample_df ! 2) = Some 1"
  by (simp_all add: sample_df_def sample_csv_def derive_fields derive_keeps set_dates_def csv_cell_def
      to_datetime_coerce_def sample_parse_def sub_dt_def dt_days_def ns_per_day_def)

text \<open>
  Claim C4. The claim has a category defined exactly when its number is defined. The
  third row of the sample file has a check-in that does not parse, so its trip duration
  and its booking window are undefined; the load succeeds, and the duration category and
  the window category of that row are both the defined string \<^verbatim>\<open>'nan'\<close>.
\<close>

theorem undefined_number_has_category:
  "load_data sample_parse sample_strftime sample_csv = Inr sample_df
   \<and> trip_duration (sample_df ! 2) = None
   \<and> duration_category (sample_df ! 2) = Some ''nan''
   \<and> booking_window (sample_df ! 2) = None
   \<and> window_category (sample_df ! 2) = Some ''nan''"
  using sample_load sample_df_2(1,2)
  by (simp add: sample_df_def sample_csv_def derive_fields set_dates_def csv_cell_def
      to_datetime_coerce_def sample_parse_def sub_dt_def dt_days_def
      duration_category_of_simps window_category_of_simps)

lemma days_neg: "x < y \<Longrightarrow> (x - y) div ns_per_day < 0"
  by (simp add: ns_per_day_def div_neg_pos_less0)

lemma days_nonpos: "x \<le> y \<Longrightarrow> (x - y) div ns_per_day \<le> 0"
  by (simp add: ns_per_day_def div_nonpos_pos_le0)

text \<open>
  Claim C10. In a loaded frame, a defined negative booking window gives the window
  category "0-6 days" and a defined trip duration of zero or less gives the duration
  category "1-3 days"; a check-in before the search timestamp does give a negative
  window, and a check-out not after the check-in a duration of zero or less.
\<close>

theorem ladders_clamp_low:
  assumes "load_data parse strftime csv = Inr df" and "r \<in> set df"
  shows "(\<forall>w. booking_window r = Some w \<and> w < 0 \<longrightarrow> window_category r = Some ''0-6 days'')
       \<and> (\<forall>d. trip_duration r = Some d \<and> d \<le> 0 \<longrightarrow> duration_category r = Some ''1-3 days'')
       \<and> (\<forall>t ci. date_time r = Some t \<and> srch_ci r = Some ci \<and> ci < t \<longrightarrow>
             (\<exists>w < 0. booking_window r = Some w) \<and> window_category r = Some ''0-6 days'')
       \<and> (\<forall>ci co. srch_ci r = Some ci \<and> srch_co r = Some co \<and> co \<le> ci \<longrightarrow>
             (\<exists>d \<le> 0. trip_duration r = Some d) \<and> duration_category r = Some ''1-3 days'')"
proof -
  note c = row_categories [OF assms]
  have "\<forall>w. booking_window r = Some w \<and> w < 0 \<longrightarrow> window_category r = Some ''0-6 days''"
    unfolding c(3) by (simp add: window_category_of_simps)
  moreover have "\<forall>d. trip_duration r = Some d \<and> d \<le> 0 \<longrightarrow> duration_category r = Some ''1-3 days''"
    unfolding c(2) by (simp add: duration_category_of_simps)
  moreover have "(\<exists>w < 0. booking_window r = Some w) \<and> window_category r = Some ''0-6 days''"
    if "date_time r = Some t \<and> srch_ci r = Some ci \<and> ci < t" for t ci
  proof -
    have "(ci - t) div ns_per_day < 0"
      using that by (simp add: days_neg)
    moreover have "booking_window r = Some ((ci - t) div ns_per_day)"
      unfolding c(7) using that by (simp add: sub_dt_def dt_days_def)
    ultimately show ?thesis
      unfolding c(3) by (simp add: window_category_of_simps)
  qed
  moreover have "(\<exists>d \<le> 0. trip_duration r = Some d) \<and> duration_category r = Some ''1-3 days''"
    if "srch_ci r = Some ci \<and> srch_co r = Some co \<and> co \<le> ci" for ci co
  proof -
    have "(co - ci) div ns_per_day \<le> 0"
      using that by (simp add: days_nonpos)
    moreover have "trip_duration r = Some ((co - ci) div ns_per_day)"
      unfolding c(6) using that by (simp add: sub_dt_def dt_days_def)
    ultimately show ?thesis
      unfolding c(2) by (simp add: duration_category_of_simps)
  qed
  ultimately show ?thesis by blast
qed

theorem ladders_clamp_low_witness:
  "load_data sample_parse sample_strftime sample_csv = Inr sample_df
   \<and> sample_df ! 1 \<in> set sample_df
   \<and> booking_window (sample_df ! 1) = Some (- 1) \<and> trip_duration (sample_df ! 1) = Some 0
   \<and> window_category (sample_df ! 1) = Some ''0-6 days''
   \<and> duration_category (sample_df ! 1) = Some ''1-3 days''"
  using ladders_clamp_low [OF sample_load sample_df_nth(2)] sample_load sample_df_nth(2) sample_df_1(1,2)
  by simp

text \<open>
  Claim C7. In a loaded frame, a row whose \<^verbatim>\<open>is_mobile\<close> and \<^verbatim>\<open>is_package\<close> cells are 0
  or 1 has a defined \<^verbatim>\<open>device_package\<close>, one of the four strings "Mobile, Package",
  "Mobile, Non-Package", "Desktop, Package" and "Desktop, Non-Package", whatever its date
  and distance cells hold.
\<close>

theorem device_package_defined:
  assumes "load_data parse strftime csv = Inr df" and "r \<in> set df"
    and "is_mobile r = Some m" and "m = 0 \<or> m = 1"
    and "is_package r = Some p" and "p = 0 \<or> p = 1"
  shows "device_package r =
           Some ((if m = 1 then ''Mobile'' else ''Desktop'') @ '', '' @
                 (if p = 1 then ''Package'' else ''Non-Package''))
       \<and> device_package r \<in> {Some ''Mobile, Package'', Some ''Mobile, Non-Package'',
                               Some ''Desktop, Package'', Some ''Desktop, Non-Package''}"
  unfolding row_categories(4) [OF assms(1,2)] assms(3,5)
  using assms(4,6) by (auto simp: device_package_of_def map_dict_def str_add_def)

theorem device_package_defined_witness:
  "load_data sample_parse sample_strftime sample_csv = Inr sample_df
   \<and> sample_df ! 2 \<in> set sample_df
   \<and> is_mobile (sample_df ! 2) = Some 1 \<and> is_package (sample_df ! 2) = Some 1
   \<and> srch_ci (sample_df ! 2) = None \<and> trip_duration (sample_df ! 2) = None
   \<and> device_package (sample_df ! 2) = Some ''Mobile, Package''"
  using device_package_defined [OF sample_load sample_df_nth(3) sample_df_2(4) _ sample_df_2(5)]
    sample_load sample_df_nth(3) sample_df_2
  by simp

text \<open>
  Claim C1. The \<^verbatim>\<open>date_time\<close> column is converted without \<^verbatim>\<open>errors='coerce'\<close>: on a
  frame of two rows whose second \<^verbatim>\<open>date_time\<close> cell is no point in time, the load
  raises and returns no frame.
\<close>

theorem load_data_bad_timestamp:
  "load_data sample_parse sample_strftime bad_csv = Inl (DateParseError ''yesterday'')"
  by (simp add: load_data_def bad_csv_def csv_cell_def to_datetime_def sample_parse_def)

text \<open>
  The load fails exactly when some \<^verbatim>\<open>date_time\<close> cell does not parse; a check-in or
  check-out cell that does not parse leaves the dependent numbers of its row undefined
  and gives their categories the string \<^verbatim>\<open>'nan'\<close>.
\<close>

lemma to_datetime_column_Inl:
  "(\<exists>e. to_datetime_column parse cs = Inl e) \<longleftrightarrow> (\<exists>s. Some s \<in> set cs \<and> parse s = None)"
  by (induction cs) (auto simp: to_datetime_def split: sum.splits option.splits)

lemma load_data_fails_iff:
  "(\<exists>e. load_data parse strftime csv = Inl e) \<longleftrightarrow>
   (\<exists>c \<in> set csv. \<exists>s. date_time c = Some s \<and> parse s = None)"
proof -
  have "(\<exists>e. load_data parse strftime csv = Inl e) \<longleftrightarrow> (\<exists>e. to_datetime_column parse (map date_time csv) = Inl e)"
    by (auto simp: load_data_def split: sum.splits)
  then show ?thesis
    unfolding to_datetime_column_Inl by force
qed

lemma unparseable_check_in:
  assumes "srch_ci c = Some s" and "parse s = None"
  shows "trip_duration (derive strftime (set_dates parse t c)) = None"
    and "booking_window (derive strftime (set_dates parse t c)) = None"
    and "duration_category (derive strftime (set_dates parse t c)) = Some ''nan''"
    and "window_category (derive strftime (set_dates parse t c)) = Some ''nan''"
  using assms
  by (simp_all add: derive_fields set_dates_def to_datetime_coerce_def sub_dt_def dt_days_def
      duration_category_of_simps window_category_of_simps split: option.splits)

lemma unparseable_check_out:
  assumes "srch_co c = Some s" and "parse s = None"
  shows "trip_duration (derive strftime (set_dates parse t c)) = None"
    and "duration_category (derive strftime (set_dates parse t c)) = Some ''nan''"
  using assms
  by (simp_all add: derive_fields set_dates_def to_datetime_coerce_def sub_dt_def dt_days_def
      duration_category_of_simps)

section \<open>Properties of the aggregation\<close>

lemma set_map_filter_keys: "set (List.map_filter f xs) = {k. \<exists>x\<in>set xs. f x = Some k}"
  by (induction xs) (auto split: option.splits)

lemma set_group_keys: "set (group_keys col df) = {k. \<exists>r\<in>set df. col r = Some k}"
  by (auto simp: group_keys_def set_map_filter_keys)

lemma strict_sorted_group_keys: "sorted_wrt (<) (group_keys col df)"
  by (simp add: group_keys_def strict_sorted_iff)

lemma group_keys_set_cong:
  assumes "set df' = set df"
  shows "group_keys col df' = group_keys col df"
proof -
  have "set (List.map_filter col df') = set (List.map_filter col df)"
    by (simp add: set_map_filter_keys assms)
  then have "sorted_list_of_set (set (List.map_filter col df')) = sorted_list_of_set (set (List.map_filter col df))"
    by simp
  then show ?thesis
    by (simp add: group_keys_def sorted_list_of_set_sort_remdups)
qed

lemma agg_count_sum: "agg_count (map f xs) = (\<Sum>r\<leftarrow>xs. if f r \<noteq> None then 1 else 0)"
  by (induction xs) (simp_all add: agg_count_def)

lemma agg_sum_sum: "agg_sum (map f xs) = (\<Sum>r\<leftarrow>xs. case f r of None \<Rightarrow> 0 | Some v \<Rightarrow> v)"
  by (simp add: agg_sum_def comp_def)

lemma agg_count_mset: "mset xs = mset ys \<Longrightarrow> agg_count xs = agg_count ys"
proof -
  assume a: "mset xs = mset ys"
  have "length (filter (\<lambda>x. x \<noteq> None) xs) = size (filter_mset (\<lambda>x. x \<noteq> None) (mset xs))"
    by (metis mset_filter size_mset)
  also have "\<dots> = size (filter_mset (\<lambda>x. x \<noteq> None) (mset ys))"
    by (simp add: a)
  also have "\<dots> = length (filter (\<lambda>x. x \<noteq> None) ys)"
    by (metis mset_filter size_mset)
  finally show ?thesis
    by (simp add: agg_count_def)
qed

lemma agg_sum_mset: "mset xs = mset ys \<Longrightarrow> agg_sum xs = agg_sum ys"
proof -
  assume a: "mset xs = mset ys"
  have "mset (map (\<lambda>x. case x of None \<Rightarrow> 0 | Some v \<Rightarrow> v) xs)
      = mset (map (\<lambda>x. case x of None \<Rightarrow> (0::int) | Some v \<Rightarrow> v) ys)"
    using a by (metis mset_map)
  then show ?thesis
    unfolding agg_sum_def by (metis sum_mset_sum_list)
qed

lemma group_rows_mset:
  "mset df' = mset df \<Longrightarrow> mset (map f (group_rows col df' k)) = mset (map f (group_rows col df k))"
  by (simp add: group_rows_def)

lemma sum_over_groups:
  fixes g :: "'r \<Rightarrow> int"
  assumes "finite K"
  shows "(\<Sum>k\<in>K. \<Sum>r\<leftarrow>filter (\<lambda>r. col r = Some k) df. g r)
       = (\<Sum>r\<leftarrow>filter (\<lambda>r. col r \<in> Some ` K) df. g r)"
proof (induction df)
  case Nil
  show ?case by simp
next
  case (Cons x df)
  have one: "(\<Sum>r\<leftarrow>filter (\<lambda>r. col r = Some k) (x # df). g r)
      = (if col x = Some k then g x else 0) + (\<Sum>r\<leftarrow>filter (\<lambda>r. col r = Some k) df. g r)" for k
    by simp
  have split: "(\<Sum>k\<in>K. \<Sum>r\<leftarrow>filter (\<lambda>r. col r = Some k) (x # df). g r)
      = (\<Sum>k\<in>K. if col x = Some k then g x else 0)
        + (\<Sum>k\<in>K. \<Sum>r\<leftarrow>filter (\<lambda>r. col r = Some k) df. g r)"
    unfolding one by (rule sum.distrib)
  have head: "(\<Sum>k\<in>K. if col x = Some k then g x else 0) = (if col x \<in> Some ` K then g x else 0)"
  proof (cases "col x")
    case None
    then show ?thesis by auto
  next
    case (Some k0)
    then show ?thesis
      using assms by (auto simp: sum.delta)
  qed
  show ?case
    unfolding split head Cons.IH by simp
qed

lemma filter_keys_defined:
  "filter (\<lambda>r. col r \<in> Some ` set (group_keys col df)) df = filter (\<lambda>r. col r \<noteq> None) df"
  by (rule filter_cong) (auto simp: set_group_keys)

lemma sum_list_groups:
  fixes g :: "'r \<Rightarrow> int"
  shows "(\<Sum>k\<leftarrow>group_keys col df. \<Sum>r\<leftarrow>group_rows col df k. g r)
       = (\<Sum>r\<leftarrow>filter (\<lambda>r. col r \<noteq> None) df. g r)"
proof -
  have d: "distinct (group_keys col df)"
    using strict_sorted_group_keys [of col df] by (simp add: strict_sorted_iff)
  have "(\<Sum>k\<leftarrow>group_keys col df. \<Sum>r\<leftarrow>group_rows col df k. g r)
      = (\<Sum>k\<in>set (group_keys col df). \<Sum>r\<leftarrow>filter (\<lambda>r. col r = Some k) df. g r)"
    unfolding group_rows_def using d by (simp add: sum_list_distinct_conv_sum_set)
  also have "\<dots> = (\<Sum>r\<leftarrow>filter (\<lambda>r. col r \<in> Some ` set (group_keys col df)) df. g r)"
    by (rule sum_over_groups) simp
  finally show ?thesis
    by (simp add: filter_keys_defined)
qed

lemma summary_fields:
  "map group_value (calculate_conversion_rate df col) = group_keys col df"
  "map searches (calculate_conversion_rate df col)
     = map (\<lambda>k. agg_count (map is_booking (group_rows col df k))) (group_keys col df)"
  "map bookings (calculate_conversion_rate df col)
     = map (\<lambda>k. agg_sum (map is_booking (group_rows col df k))) (group_keys col df)"
  by (simp_all add: calculate_conversion_rate_def Let_def comp_def)

lemma summary_row:
  assumes "g \<in> set (calculate_conversion_rate df col)"
  shows "group_value g \<in> set (group_keys col df)"
    and "searches g = agg_count (map is_booking (group_rows col df (group_value g)))"
    and "bookings g = agg_sum (map is_booking (group_rows col df (group_value g)))"
    and "conversion_rate g =
           (if searches g = 0 then None
            else Some (real_of_int (bookings g) / real_of_int (searches g) * 100))"
  using assms by (auto simp: calculate_conversion_rate_def Let_def)

lemma agg_count_flags:
  assumes "\<forall>r\<in>set xs. is_booking r = Some 0 \<or> is_booking r = Some 1"
  shows "agg_count (map is_booking xs) = int (length xs)"
  using assms by (induction xs) (auto simp: agg_count_def)

lemma agg_sum_flags:
  assumes "\<forall>r\<in>set xs. is_booking r = Some 0 \<or> is_booking r = Some 1"
  shows "agg_sum (map is_booking xs) = int (length (filter (\<lambda>r. is_booking r = Some 1) xs))"
  using assms by (induction xs) (auto simp: agg_sum_def)

text \<open>The sample frame and three of its summaries, evaluated.\<close>

lemma sample_rows:
  "sample_df =
     [\<lparr>date_time = Some 1407743219000000000, srch_ci = Some 1409097600000000000,
        srch_co = Some 1409443200000000000, is_mobile = Some 0, is_package = Some 1,
        is_booking = Some 0, srch_adults_cnt = Some 2, srch_children_cnt = Some 0,
        orig_destination_distance = Some 2234, user_location_country = Some 66,
        hotel_market = Some 628, year_month = Some ''2014-08'', trip_duration = Some 4,
        booking_window = Some 15, travel_group = ''Couple'',
        duration_category = Some ''4-7 days'', window_category = Some ''14-29 days'',
        device_package = Some ''Desktop, Package'', distance_category = Some ''> 2000''\<rparr>,
      \<lparr>date_time = Some 1407745332000000000, srch_ci = Some 1407715200000000000,
        srch_co = Some 1407715200000000000, is_mobile = Some 1, is_package = Some 0,
        is_booking = Some 1, srch_adults_cnt = Some 1, srch_children_cnt = Some 2,
        orig_destination_distance = None, user_location_country = Some 66,
        hotel_market = Some 628, year_month = Some ''2014-08'', trip_duration = Some 0,
        booking_window = Some (- 1), travel_group = ''Single Parent'',
        duration_category = Some ''1-3 days'', window_category = Some ''0-6 days'',
        device_package = Some ''Mobile, Non-Package'', distance_category = Some ''nan''\<rparr>,
      \<lparr>date_time = Some 1407743219000000000, srch_ci = None,
        srch_co = Some 1409443200000000000, is_mobile = Some 1, is_package = Some 1,
        is_booking = Some 1, srch_adults_cnt = Some 0, srch_children_cnt = Some 0,
        orig_destination_distance = Some 50, user_location_country = Some 3,
        hotel_market = Some 675, year_month = Some ''2014-08'', trip_duration = None,
        booking_window = None, travel_group = ''Other'',
        duration_category = Some ''nan'', window_category = Some ''nan'',
        device_package = Some ''Mobile, Package'', distance_category = Some ''< 100''\<rparr>,
      \<lparr>date_time = Some 1407745332000000000, srch_ci = Some 1409097600000000000,
        srch_co = Some 1411171200000000000, is_mobile = Some 0, is_package = Some 1,
        is_booking = Some 1, srch_adults_cnt = Some 2, srch_children_cnt = Some 0,
        orig_destination_distance = Some 120, user_location_country = Some 66,
        hotel_market = Some 628, year_month = Some ''2014-08'', trip_duration = Some 24,
        booking_window = Some 15, travel_group = ''Couple'',
        duration_category = Some ''15+ days'', window_category = Some ''14-29 days'',
        device_package = Some ''Desktop, Package'', distance_category = Some ''100-500''\<rparr>]"
  by (simp add: sample_df_def sample_csv_def derive_def Let_def csv_row.defs row.defs
      set_dates_def csv_cell_def to_datetime_coerce_def sample_parse_def sample_strftime_def
      sub_dt_def dt_days_def ns_per_day_def travel_group_of_def duration_category_of_def
      window_category_of_def device_package_of_def distance_category_of_def nan_as_str_def
      cmp_def map_dict_def str_add_def)

lemma sample_by_device:
  "calculate_conversion_rate sample_df device_package =
     [\<lparr>group_value = ''Desktop, Package'', searches = 2, bookings = 1, conversion_rate = Some 50\<rparr>,
      \<lparr>group_value = ''Mobile, Non-Package'', searches = 1, bookings = 1, conversion_rate = Some 100\<rparr>,
      \<lparr>group_value = ''Mobile, Package'', searches = 1, bookings = 1, conversion_rate = Some 100\<rparr>]"
  by (simp add: sample_rows calculate_conversion_rate_def group_keys_def group_rows_def
      agg_count_def agg_sum_def)

lemma sample_by_duration:
  "calculate_conversion_rate sample_df duration_category =
     [\<lparr>group_value = ''1-3 days'', searches = 1, bookings = 1, conversion_rate = Some 100\<rparr>,
      \<lparr>group_value = ''15+ days'', searches = 1, bookings = 1, conversion_rate = Some 100\<rparr>,
      \<lparr>group_value = ''4-7 days'', searches = 1, bookings = 0, conversion_rate = Some 0\<rparr>,
      \<lparr>group_value = ''nan'', searches = 1, bookings = 1, conversion_rate = Some 100\<rparr>]"
  by (simp add: sample_rows calculate_conversion_rate_def group_keys_def group_rows_def
      agg_count_def agg_sum_def)

lemma sample_by_trip_duration:
  "calculate_conversion_rate sample_df trip_duration =
     [\<lparr>group_value = 0, searches = 1, bookings = 1, conversion_rate = Some 100\<rparr>,
      \<lparr>group_value = 4, searches = 1, bookings = 0, conversion_rate = Some 0\<rparr>,
      \<lparr>group_value = 24, searches = 1, bookings = 1, conversion_rate = Some 100\<rparr>]"
  by (simp add: sample_rows calculate_conversion_rate_def group_keys_def group_rows_def
      agg_count_def agg_sum_def)

lemma sample_by_market:
  "calculate_conversion_rate sample_df hotel_market =
     [\<lparr>group_value = 628, searches = 3, bookings = 2, conversion_rate = Some (200 / 3)\<rparr>,
      \<lparr>group_value = 675, searches = 1, bookings = 1, conversion_rate = Some 100\<rparr>]"
  by (simp add: sample_rows calculate_conversion_rate_def group_keys_def group_rows_def
      agg_count_def agg_sum_def)

lemma sample_flags: "\<forall>r\<in>set sample_df. is_booking r = Some 0 \<or> is_booking r = Some 1"
  by (simp add: sample_df_def sample_csv_def derive_keeps set_dates_def csv_cell_def)

text \<open>
  Claim C2. On a frame whose \<^verbatim>\<open>is_booking\<close> cells are 0 or 1, the summary has one
  entry for each distinct defined value of the grouping column and no other; in the
  entry of a value, \<^verbatim>\<open>searches\<close> is the number of rows with that value and is positive,
  \<^verbatim>\<open>bookings\<close> is the number of those rows with \<^verbatim>\<open>is_booking\<close> 1, and the rate is
  100 times bookings over searches. The group of a value holds only rows with that value,
  so a row with an undefined value is in no group.
\<close>

theorem conversion_summary:
  assumes "\<forall>r\<in>set df. is_booking r = Some 0 \<or> is_booking r = Some 1"
  shows "distinct (map group_value (calculate_conversion_rate df col))
       \<and> set (map group_value (calculate_conversion_rate df col)) = {k. \<exists>r\<in>set df. col r = Some k}
       \<and> (\<forall>g\<in>set (calculate_conversion_rate df col).
            searches g = int (length (filter (\<lambda>r. col r = Some (group_value g)) df))
          \<and> 0 < searches g
          \<and> bookings g = int (length (filter (\<lambda>r. col r = Some (group_value g) \<and> is_booking r = Some 1) df))
          \<and> conversion_rate g = Some (100 * real_of_int (bookings g) / real_of_int (searches g)))
       \<and> (\<forall>k. \<forall>r\<in>set (group_rows col df k). col r = Some k)"
proof -
  let ?S = "calculate_conversion_rate df col"
  have part: "\<forall>k. \<forall>r\<in>set (group_rows col df k). col r = Some k"
    by (simp add: group_rows_def)
  have keys: "distinct (map group_value ?S)"
    using strict_sorted_group_keys [of col df] by (simp add: summary_fields strict_sorted_iff)
  have vals: "set (map group_value ?S) = {k. \<exists>r\<in>set df. col r = Some k}"
    by (simp only: summary_fields set_group_keys)
  have rows: "searches g = int (length (filter (\<lambda>r. col r = Some (group_value g)) df))
          \<and> 0 < searches g
          \<and> bookings g = int (length (filter (\<lambda>r. col r = Some (group_value g) \<and> is_booking r = Some 1) df))
          \<and> conversion_rate g = Some (100 * real_of_int (bookings g) / real_of_int (searches g))"
    if g: "g \<in> set ?S" for g
  proof -
    let ?grp = "group_rows col df (group_value g)"
    have fl: "\<forall>r\<in>set ?grp. is_booking r = Some 0 \<or> is_booking r = Some 1"
      using assms by (simp add: group_rows_def)
    have s: "searches g = int (length ?grp)"
      using summary_row(2) [OF g] agg_count_flags [OF fl] by simp
    have b: "bookings g = int (length (filter (\<lambda>r. is_booking r = Some 1) ?grp))"
      using summary_row(3) [OF g] agg_sum_flags [OF fl] by simp
    obtain r where "r \<in> set df" and "col r = Some (group_value g)"
      using summary_row(1) [OF g] by (auto simp: set_group_keys)
    then have "?grp \<noteq> []"
      by (auto simp: group_rows_def filter_empty_conv)
    then have pos: "0 < searches g"
      using s by simp
    have rate: "conversion_rate g = Some (100 * real_of_int (bookings g) / real_of_int (searches g))"
      using summary_row(4) [OF g] pos by simp
    show ?thesis
      using s b pos rate by (simp add: group_rows_def conj_commute)
  qed
  show ?thesis
    using keys vals rows part by blast
qed

theorem conversion_summary_witness:
  "map is_booking sample_df = [Some 0, Some 1, Some 1, Some 1]
   \<and> hd (calculate_conversion_rate sample_df device_package) \<in> set (calculate_conversion_rate sample_df device_package)
   \<and> group_value (hd (calculate_conversion_rate sample_df device_package)) = ''Desktop, Package''
   \<and> searches (hd (calculate_conversion_rate sample_df device_package)) = 2
   \<and> bookings (hd (calculate_conversion_rate sample_df device_package)) = 1
   \<and> conversion_rate (hd (calculate_conversion_rate sample_df device_package)) = Some 50
   \<and> length (filter (\<lambda>r. device_package r = Some ''Desktop, Package'') sample_df) = 2"
  using conversion_summary [OF sample_flags, of device_package]
  by (simp add: sample_by_device) (simp add: sample_rows)

text \<open>
  Claim C5. On a frame whose \<^verbatim>\<open>is_booking\<close> cells are 0 or 1, the \<^verbatim>\<open>bookings\<close> of all
  groups add up to the number of rows with a defined grouping value and \<^verbatim>\<open>is_booking\<close>
  1, and the \<^verbatim>\<open>searches\<close> of all groups add up to the number of rows with a defined
  grouping value.
\<close>

theorem summary_totals:
  assumes "\<forall>r\<in>set df. is_booking r = Some 0 \<or> is_booking r = Some 1"
  shows "(\<Sum>g\<leftarrow>calculate_conversion_rate df col. bookings g)
           = int (length (filter (\<lambda>r. col r \<noteq> None \<and> is_booking r = Some 1) df))
       \<and> (\<Sum>g\<leftarrow>calculate_conversion_rate df col. searches g)
           = int (length (filter (\<lambda>r. col r \<noteq> None) df))"
proof -
  let ?def = "filter (\<lambda>r. col r \<noteq> None) df"
  have fl: "\<forall>r\<in>set ?def. is_booking r = Some 0 \<or> is_booking r = Some 1"
    using assms by simp
  have "(\<Sum>g\<leftarrow>calculate_conversion_rate df col. bookings g)
      = (\<Sum>k\<leftarrow>group_keys col df. \<Sum>r\<leftarrow>group_rows col df k. case is_booking r of None \<Rightarrow> 0 | Some v \<Rightarrow> v)"
    by (simp only: summary_fields agg_sum_sum)
  also have "\<dots> = agg_sum (map is_booking ?def)"
    by (simp only: sum_list_groups agg_sum_sum)
  also have "\<dots> = int (length (filter (\<lambda>r. is_booking r = Some 1) ?def))"
    by (rule agg_sum_flags [OF fl])
  finally have b: "(\<Sum>g\<leftarrow>calculate_conversion_rate df col. bookings g)
      = int (length (filter (\<lambda>r. col r \<noteq> None \<and> is_booking r = Some 1) df))"
    by (simp add: conj_commute)
  have "(\<Sum>g\<leftarrow>calculate_conversion_rate df col. searches g)
      = (\<Sum>k\<leftarrow>group_keys col df. \<Sum>r\<leftarrow>group_rows col df k. if is_booking r \<noteq> None then 1 else 0)"
    by (simp only: summary_fields agg_count_sum)
  also have "\<dots> = agg_count (map is_booking ?def)"
    by (simp only: sum_list_groups agg_count_sum)
  also have "\<dots> = int (length ?def)"
    by (rule agg_count_flags [OF fl])
  finally show ?thesis
    using b by simp
qed

theorem summary_totals_witness:
  "map is_booking sample_df = [Some 0, Some 1, Some 1, Some 1]
   \<and> map trip_duration sample_df = [Some 4, Some 0, None, Some 24]
   \<and> (\<Sum>g\<leftarrow>calculate_conversion_rate sample_df trip_duration. bookings g) = 2
   \<and> (\<Sum>g\<leftarrow>calculate_conversion_rate sample_df trip_duration. searches g) = 3
   \<and> length (filter (\<lambda>r. trip_duration r \<noteq> None) sample_df) = 3
   \<and> length (filter (\<lambda>r. is_booking r = Some 1) sample_df) = 3"
  using summary_totals [OF sample_flags, of trip_duration]
  by (simp add: sample_by_trip_duration sample_rows)

text \<open>
  Claim C6. The summary of the empty frame is empty, for every grouping column; the
  function returns a value on every frame, and the only division is guarded.
\<close>

theorem empty_summary: "calculate_conversion_rate [] col = []"
  by (simp add: calculate_conversion_rate_def group_keys_def)

lemma summary_mset_cong:
  assumes m: "mset df' = mset df"
  shows "calculate_conversion_rate df' col = calculate_conversion_rate df col"
proof -
  have "set df' = set df"
    using m by (rule mset_eq_setD)
  then have k: "group_keys col df' = group_keys col df"
    by (rule group_keys_set_cong)
  have g: "mset (map is_booking (group_rows col df' x)) = mset (map is_booking (group_rows col df x))" for x
    using m by (rule group_rows_mset)
  have c: "agg_count (map is_booking (group_rows col df' x)) = agg_count (map is_booking (group_rows col df x))" for x
    using g [of x] by (rule agg_count_mset)
  have s: "agg_sum (map is_booking (group_rows col df' x)) = agg_sum (map is_booking (group_rows col df x))" for x
    using g [of x] by (rule agg_sum_mset)
  show ?thesis
    by (simp only: calculate_conversion_rate_def Let_def k c s)
qed

text \<open>
  Claim C9. The entries of a summary are in strictly ascending order of the grouping
  value, and two frames with the same rows in any order have the same summary.
\<close>

theorem summary_order:
  "sorted_wrt (<) (map group_value (calculate_conversion_rate df col))
   \<and> (\<forall>df'. mset df' = mset df \<longrightarrow> calculate_conversion_rate df' col = calculate_conversion_rate df col)"
proof -
  have "sorted_wrt (<) (map group_value (calculate_conversion_rate df col))"
    by (simp only: summary_fields strict_sorted_group_keys)
  then show ?thesis
    using summary_mset_cong [of _ df col] by blast
qed

theorem summary_order_witness:
  "mset (rev sample_df) = mset sample_df
   \<and> calculate_conversion_rate (rev sample_df) hotel_market = calculate_conversion_rate sample_df hotel_market
   \<and> map group_value (calculate_conversion_rate (rev sample_df) hotel_market) = [628, 675]"
proof -
  have m: "mset (rev sample_df) = mset sample_df"
    by simp
  have "calculate_conversion_rate (rev sample_df) hotel_market = calculate_conversion_rate sample_df hotel_market"
    using summary_order [of sample_df hotel_market] m by blast
  then show ?thesis
    using m by (simp add: sample_by_market)
qed

section \<open>Properties of the top-N views\<close>

lemma set_sort_values_desc: "set (sort_values_desc col xs) = set xs"
  by (simp add: sort_values_desc_def)

lemma length_sort_values_desc: "length (sort_values_desc col xs) = length xs"
  by (simp add: sort_values_desc_def)

lemma sort_values_desc_descending:
  "sorted_wrt (\<lambda>a b. col a \<ge> col b) (sort_values_desc col xs)"
proof -
  have "sorted (map col (sort_key col (rev xs)))"
    by (rule sorted_sort_key)
  then have "sorted_wrt (\<lambda>a b. col a \<le> col b) (sort_key col (rev xs))"
    by (simp add: sorted_wrt_map)
  then show ?thesis
    by (simp add: sort_values_desc_def sorted_wrt_rev)
qed

lemma descending_take_drop:
  assumes "sorted_wrt (\<lambda>a b. col a \<ge> col b) ys" and "h \<in> set (take n ys)"
    and "g \<in> set ys" and "g \<notin> set (take n ys)"
  shows "col g \<le> col h"
proof -
  have "set ys = set (take n ys) \<union> set (drop n ys)"
    by (metis append_take_drop_id set_append)
  then have g: "g \<in> set (drop n ys)"
    using assms(3,4) by simp
  have "sorted_wrt (\<lambda>a b. col a \<ge> col b) (take n ys @ drop n ys)"
    using assms(1) by simp
  then show ?thesis
    using assms(2) g unfolding sorted_wrt_append by blast
qed

lemma top_set: "set (top_by_conversion_rate n data) \<subseteq> {g \<in> set data. 100 \<le> searches g}"
proof -
  have "set (top_by_conversion_rate n data)
      \<subseteq> set (sort_values_desc conversion_rate (filter (\<lambda>g. 100 \<le> searches g) data))"
    unfolding top_by_conversion_rate_def by (rule set_take_subset)
  then show ?thesis
    by (auto simp: set_sort_values_desc)
qed

lemma top_length:
  "length (top_by_conversion_rate n data) = min n (length (filter (\<lambda>g. 100 \<le> searches g) data))"
  by (simp add: top_by_conversion_rate_def length_sort_values_desc min.commute)

text \<open>The large sample frame, its summaries and its views, evaluated.\<close>

lemma group_keys_unique:
  assumes "sorted_wrt (<) ks" and "set ks = {k. \<exists>r\<in>set df. col r = Some k}"
  shows "group_keys col df = ks"
proof -
  have "sorted (group_keys col df)" "distinct (group_keys col df)"
    using strict_sorted_group_keys [of col df] by (simp_all add: strict_sorted_iff)
  moreover have "sorted ks" "distinct ks"
    using assms(1) by (simp_all add: strict_sorted_iff)
  moreover have "set (group_keys col df) = set ks"
    by (simp add: set_group_keys assms(2))
  ultimately show ?thesis
    by (rule sorted_distinct_set_unique)
qed

lemma big_markets: "group_keys hotel_market big_df = [1, 2, 3, 4, 5, 6, 7, 8, 9, 10, 11, 12, 99]"
  by (rule group_keys_unique) (auto simp: big_df_def market_rows_def)

lemma big_by_market:
  "calculate_conversion_rate big_df hotel_market =
     [\<lparr>group_value = 1, searches = 100, bookings = 1, conversion_rate = Some 1\<rparr>,
      \<lparr>group_value = 2, searches = 100, bookings = 2, conversion_rate = Some 2\<rparr>,
      \<lparr>group_value = 3, searches = 100, bookings = 3, conversion_rate = Some 3\<rparr>,
      \<lparr>group_value = 4, searches = 100, bookings = 4, conversion_rate = Some 4\<rparr>,
      \<lparr>group_value = 5, searches = 100, bookings = 5, conversion_rate = Some 5\<rparr>,
      \<lparr>group_value = 6, searches = 100, bookings = 6, conversion_rate = Some 6\<rparr>,
      \<lparr>group_value = 7, searches = 100, bookings = 7, conversion_rate = Some 7\<rparr>,
      \<lparr>group_value = 8, searches = 100, bookings = 8, conversion_rate = Some 8\<rparr>,
      \<lparr>group_value = 9, searches = 100, bookings = 9, conversion_rate = Some 9\<rparr>,
      \<lparr>group_value = 10, searches = 100, bookings = 10, conversion_rate = Some 10\<rparr>,
      \<lparr>group_value = 11, searches = 100, bookings = 11, conversion_rate = Some 11\<rparr>,
      \<lparr>group_value = 12, searches = 100, bookings = 12, conversion_rate = Some 12\<rparr>,
      \<lparr>group_value = 99, searches = 50, bookings = 50, conversion_rate = Some 100\<rparr>]"
  unfolding calculate_conversion_rate_def big_markets
  by (simp add: Let_def group_rows_def agg_count_def agg_sum_def big_df_def market_rows_def
      filter_replicate sum_list_replicate)

lemma big_countries: "group_keys user_location_country big_df = [1, 2, 3, 4, 5, 6, 7, 8, 9, 10, 11, 12, 99]"
  by (rule group_keys_unique) (auto simp: big_df_def market_rows_def)

lemma big_by_country:
  "calculate_conversion_rate big_df user_location_country =
     [\<lparr>group_value = 1, searches = 100, bookings = 1, conversion_rate = Some 1\<rparr>,
      \<lparr>group_value = 2, searches = 100, bookings = 2, conversion_rate = Some 2\<rparr>,
      \<lparr>group_value = 3, searches = 100, bookings = 3, conversion_rate = Some 3\<rparr>,
      \<lparr>group_value = 4, searches = 100, bookings = 4, conversion_rate = Some 4\<rparr>,
      \<lparr>group_value = 5, searches = 100, bookings = 5, conversion_rate = Some 5\<rparr>,
      \<lparr>group_value = 6, searches = 100, bookings = 6, conversion_rate = Some 6\<rparr>,
      \<lparr>group_value = 7, searches = 100, bookings = 7, conversion_rate = Some 7\<rparr>,
      \<lparr>group_value = 8, searches = 100, bookings = 8, conversion_rate = Some 8\<rparr>,
      \<lparr>group_value = 9, searches = 100, bookings = 9, conversion_rate = Some 9\<rparr>,
      \<lparr>group_value = 10, searches = 100, bookings = 10, conversion_rate = Some 10\<rparr>,
      \<lparr>group_value = 11, searches = 100, bookings = 11, conversion_rate = Some 11\<rparr>,
      \<lparr>group_value = 12, searches = 100, bookings = 12, conversion_rate = Some 12\<rparr>,
      \<lparr>group_value = 99, searches = 50, bookings = 50, conversion_rate = Some 100\<rparr>]"
  unfolding calculate_conversion_rate_def big_countries
  by (simp add: Let_def group_rows_def agg_count_def agg_sum_def big_df_def market_rows_def
      filter_replicate sum_list_replicate)

lemma big_top_markets:
  "top_markets big_df =
     [\<lparr>group_value = 12, searches = 100, bookings = 12, conversion_rate = Some 12\<rparr>,
      \<lparr>group_value = 11, searches = 100, bookings = 11, conversion_rate = Some 11\<rparr>,
      \<lparr>group_value = 10, searches = 100, bookings = 10, conversion_rate = Some 10\<rparr>,
      \<lparr>group_value = 9, searches = 100, bookings = 9, conversion_rate = Some 9\<rparr>,
      \<lparr>group_value = 8, searches = 100, bookings = 8, conversion_rate = Some 8\<rparr>,
      \<lparr>group_value = 7, searches = 100, bookings = 7, conversion_rate = Some 7\<rparr>,
      \<lparr>group_value = 6, searches = 100, bookings = 6, conversion_rate = Some 6\<rparr>,
      \<lparr>group_value = 5, searches = 100, bookings = 5, conversion_rate = Some 5\<rparr>,
      \<lparr>group_value = 4, searches = 100, bookings = 4, conversion_rate = Some 4\<rparr>,
      \<lparr>group_value = 3, searches = 100, bookings = 3, conversion_rate = Some 3\<rparr>]"
  by (simp add: top_markets_def big_by_market top_by_conversion_rate_def sort_values_desc_def)

lemma big_top_countries:
  "top_countries big_df =
     [\<lparr>group_value = 12, searches = 100, bookings = 12, conversion_rate = Some 12\<rparr>,
      \<lparr>group_value = 11, searches = 100, bookings = 11, conversion_rate = Some 11\<rparr>,
      \<lparr>group_value = 10, searches = 100, bookings = 10, conversion_rate = Some 10\<rparr>,
      \<lparr>group_value = 9, searches = 100, bookings = 9, conversion_rate = Some 9\<rparr>,
      \<lparr>group_value = 8, searches = 100, bookings = 8, conversion_rate = Some 8\<rparr>,
      \<lparr>group_value = 7, searches = 100, bookings = 7, conversion_rate = Some 7\<rparr>,
      \<lparr>group_value = 6, searches = 100, bookings = 6, conversion_rate = Some 6\<rparr>,
      \<lparr>group_value = 5, searches = 100, bookings = 5, conversion_rate = Some 5\<rparr>,
      \<lparr>group_value = 4, searches = 100, bookings = 4, conversion_rate = Some 4\<rparr>,
      \<lparr>group_value = 3, searches = 100, bookings = 3, conversion_rate = Some 3\<rparr>]"
  by (simp add: top_countries_def big_by_country top_by_conversion_rate_def sort_values_desc_def)

lemma full_segment_defined: "full_segment r \<noteq> None"
  by (cases "trip_duration r")
    (simp_all add: full_segment_def str_add_def trip_type_def nan_as_str_def cmp_def)

lemma dropna_full_segment: "filter (\<lambda>r. full_segment r \<noteq> None) df = df"
  by (simp add: full_segment_defined)

lemma sample_segments:
  "full_segment ((sample_df ! 0)\<lparr>hotel_market := a, user_location_country := b, is_booking := c\<rparr>)
     = Some ''Desktop Package - Couple - Standard Vacation''"
  "full_segment ((sample_df ! 2)\<lparr>hotel_market := a, user_location_country := b, is_booking := c\<rparr>)
     = Some ''Mobile Package - Other - nan''"
  by (simp_all add: sample_rows full_segment_def segment_device_package_def travel_party_def
      trip_type_def nan_as_str_def str_add_def cmp_def)

lemma big_segments:
  "group_keys full_segment big_df =
     [''Desktop Package - Couple - Standard Vacation'', ''Mobile Package - Other - nan'']"
  by (rule group_keys_unique) (auto simp: big_df_def market_rows_def sample_segments)

lemma big_by_segment:
  "calculate_conversion_rate big_df full_segment =
     [\<lparr>group_value = ''Desktop Package - Couple - Standard Vacation'', searches = 1150,
        bookings = 116, conversion_rate = Some (232 / 23)\<rparr>,
      \<lparr>group_value = ''Mobile Package - Other - nan'', searches = 100,
        bookings = 12, conversion_rate = Some 12\<rparr>]"
  unfolding calculate_conversion_rate_def big_segments
  by (simp add: Let_def group_rows_def agg_count_def agg_sum_def big_df_def market_rows_def
      filter_replicate sum_list_replicate sample_segments)

lemma big_top_segments:
  "top_segments big_df =
     [\<lparr>group_value = ''Mobile Package - Other - nan'', searches = 100,
        bookings = 12, conversion_rate = Some 12\<rparr>,
      \<lparr>group_value = ''Desktop Package - Couple - Standard Vacation'', searches = 1150,
        bookings = 116, conversion_rate = Some (232 / 23)\<rparr>]"
  unfolding top_segments_def dropna_full_segment big_by_segment
  by (simp add: top_by_conversion_rate_def sort_values_desc_def)

lemma mset_sort_values_desc: "mset (sort_values_desc col xs) = mset xs"
  by (simp add: sort_values_desc_def)

lemma top_first_n:
  "\<exists>ys. mset ys = mset (filter (\<lambda>g. 100 \<le> searches g) S)
        \<and> sorted_wrt (\<lambda>a b. conversion_rate b \<le> conversion_rate a) ys
        \<and> top_by_conversion_rate n S = take n ys"
proof -
  let ?ys = "sort_values_desc conversion_rate (filter (\<lambda>g. 100 \<le> searches g) S)"
  have "mset ?ys = mset (filter (\<lambda>g. 100 \<le> searches g) S)"
    by (rule mset_sort_values_desc)
  moreover have "sorted_wrt (\<lambda>a b. conversion_rate b \<le> conversion_rate a) ?ys"
    by (rule sort_values_desc_descending)
  moreover have "top_by_conversion_rate n S = take n ?ys"
    by (simp add: top_by_conversion_rate_def)
  ultimately show ?thesis by blast
qed

lemma top_left_out:
  assumes "g \<in> set S" and "100 \<le> searches g" and "g \<notin> set (top_by_conversion_rate n S)"
    and "h \<in> set (top_by_conversion_rate n S)"
  shows "conversion_rate g \<le> conversion_rate h"
proof -
  let ?ys = "sort_values_desc conversion_rate (filter (\<lambda>g. 100 \<le> searches g) S)"
  have T: "top_by_conversion_rate n S = take n ?ys"
    by (simp add: top_by_conversion_rate_def)
  have "g \<in> set ?ys"
    using assms(1,2) by (simp add: set_sort_values_desc)
  then show ?thesis
    using descending_take_drop [OF sort_values_desc_descending, of h n conversion_rate _ g]
      assms(3,4) unfolding T by blast
qed

lemma top_view:
  "(\<exists>ys. mset ys = mset (filter (\<lambda>g. 100 \<le> searches g) S)
        \<and> sorted_wrt (\<lambda>a b. conversion_rate b \<le> conversion_rate a) ys
        \<and> top_by_conversion_rate n S = take n ys)
   \<and> (\<forall>g\<in>set (top_by_conversion_rate n S). 100 \<le> searches g \<and> g \<in> set S)
   \<and> length (top_by_conversion_rate n S) = min n (length (filter (\<lambda>g. 100 \<le> searches g) S))
   \<and> (\<forall>g\<in>set S. 100 \<le> searches g \<and> g \<notin> set (top_by_conversion_rate n S) \<longrightarrow>
         (\<forall>h\<in>set (top_by_conversion_rate n S). conversion_rate g \<le> conversion_rate h))"
  using top_first_n [of S n] top_set [of n S] top_length [of n S] top_left_out [of _ S n]
  by blast

text \<open>
  Claim C8. Each of the three views (the top 10 markets, the top 10 countries and the top
  15 segments of a frame) is the first \<open>N\<close> entries of an arrangement, in descending
  order of the rate, of exactly those groups of the frame's summary that have at least
  100 searches. So every group shown belongs to the summary and has at least 100
  searches, the view shows as many groups as there are such groups, up to \<open>N\<close>, and a
  group with at least 100 searches that is left out has a rate no higher than each group
  shown. The segments of rows without a trip duration end in \<^verbatim>\<open>'nan'\<close> and take part
  like any other segment.
\<close>

theorem top_n_floor:
  "(\<exists>ys. mset ys = mset (filter (\<lambda>g. 100 \<le> searches g) (calculate_conversion_rate df hotel_market))
        \<and> sorted_wrt (\<lambda>a b. conversion_rate b \<le> conversion_rate a) ys
        \<and> top_markets df = take 10 ys)
   \<and> (\<forall>g\<in>set (top_markets df).
         100 \<le> searches g \<and> g \<in> set (calculate_conversion_rate df hotel_market))
   \<and> length (top_markets df)
       = min 10 (length (filter (\<lambda>g. 100 \<le> searches g) (calculate_conversion_rate df hotel_market)))
   \<and> (\<forall>g\<in>set (calculate_conversion_rate df hotel_market).
         100 \<le> searches g \<and> g \<notin> set (top_markets df) \<longrightarrow>
         (\<forall>h\<in>set (top_markets df). conversion_rate g \<le> conversion_rate h))
   \<and> (\<exists>ys. mset ys = mset (filter (\<lambda>g. 100 \<le> searches g) (calculate_conversion_rate df user_location_country))
        \<and> sorted_wrt (\<lambda>a b. conversion_rate b \<le> conversion_rate a) ys
        \<and> top_countries df = take 10 ys)
   \<and> (\<forall>g\<in>set (top_countries df).
         100 \<le> searches g \<and> g \<in> set (calculate_conversion_rate df user_location_country))
   \<and> length (top_countries df)
       = min 10 (length (filter (\<lambda>g. 100 \<le> searches g) (calculate_conversion_rate df user_location_country)))
   \<and> (\<forall>g\<in>set (calculate_conversion_rate df user_location_country).
         100 \<le> searches g \<and> g \<notin> set (top_countries df) \<longrightarrow>
         (\<forall>h\<in>set (top_countries df). conversion_rate g \<le> conversion_rate h))
   \<and> (\<exists>ys. mset ys = mset (filter (\<lambda>g. 100 \<le> searches g) (calculate_conversion_rate df full_segment))
        \<and> sorted_wrt (\<lambda>a b. conversion_rate b \<le> conversion_rate a) ys
        \<and> top_segments df = take 15 ys)
   \<and> (\<forall>g\<in>set (top_segments df).
         100 \<le> searches g \<and> g \<in> set (calculate_conversion_rate df full_segment))
   \<and> length (top_segments df)
       = min 15 (length (filter (\<lambda>g. 100 \<le> searches g) (calculate_conversion_rate df full_segment)))
   \<and> (\<forall>g\<in>set (calculate_conversion_rate df full_segment).
         100 \<le> searches g \<and> g \<notin> set (top_segments df) \<longrightarrow>
         (\<forall>h\<in>set (top_segments df). conversion_rate g \<le> conversion_rate h))"
proof -
  have m: "top_markets df = top_by_conversion_rate 10 (calculate_conversion_rate df hotel_market)"
    by (simp only: top_markets_def)
  have c: "top_countries df = top_by_conversion_rate 10 (calculate_conversion_rate df user_location_country)"
    by (simp only: top_countries_def)
  have s: "top_segments df = top_by_conversion_rate 15 (calculate_conversion_rate df full_segment)"
    by (simp only: top_segments_def dropna_full_segment)
  show ?thesis
    unfolding m c s
    using top_view [of "calculate_conversion_rate df hotel_market" 10]
      top_view [of "calculate_conversion_rate df user_location_country" 10]
      top_view [of "calculate_conversion_rate df full_segment" 15]
    by (elim conjE, intro conjI) assumption+
qed

theorem top_n_floor_witness:
  "map group_value (top_markets big_df) = [12, 11, 10, 9, 8, 7, 6, 5, 4, 3]
   \<and> map conversion_rate (top_markets big_df)
       = [Some 12, Some 11, Some 10, Some 9, Some 8, Some 7, Some 6, Some 5, Some 4, Some 3]
   \<and> \<lparr>group_value = 99, searches = 50, bookings = 50, conversion_rate = Some 100\<rparr>
       \<in> set (calculate_conversion_rate big_df hotel_market)
   \<and> \<lparr>group_value = 99, searches = 50, bookings = 50, conversion_rate = Some 100\<rparr>
       \<notin> set (top_markets big_df)
   \<and> \<lparr>group_value = 2, searches = 100, bookings = 2, conversion_rate = Some 2\<rparr>
       \<in> set (calculate_conversion_rate big_df hotel_market)
   \<and> \<lparr>group_value = 2, searches = 100, bookings = 2, conversion_rate = Some 2\<rparr>
       \<notin> set (top_markets big_df)
   \<and> length (filter (\<lambda>g. 100 \<le> searches g) (calculate_conversion_rate big_df hotel_market)) = 12
   \<and> length (top_markets big_df) = 10
   \<and> map group_value (top_countries big_df) = [12, 11, 10, 9, 8, 7, 6, 5, 4, 3]
   \<and> map group_value (top_segments big_df)
       = [''Mobile Package - Other - nan'', ''Desktop Package - Couple - Standard Vacation'']
   \<and> map searches (top_segments big_df) = [100, 1150]"
  using top_n_floor [of big_df]
  by (simp add: big_top_markets big_top_countries big_top_segments big_by_market)

end
